theory Spec2Isabelle
  imports Complex_Main "HOL-Library.Multiset"
begin

section \<open>JavaScript values\<close>

text \<open>
  A JavaScript number is a double: not-a-number, an infinity, or a finite value, which is
  read as the real number it denotes. The code only compares numbers with constants and
  tests them for zero, and both agree with the reals on every finite double.
\<close>

datatype number = NaN | NegInf | Fin real | PosInf

text \<open>
  Plain data as \<open>JSON.parse\<close> produces it and \<open>JSON.stringify\<close> consumes it. An object
  is the list of its own properties in the order they were created, with distinct keys;
  \<open>undefined\<close> is the absence of a value (\<open>None\<close>).
\<close>

datatype js =
    JNull
  | JBool bool
  | JNum number
  | JStr string
  | JArr "js list"
  | JObj "(string \<times> js) list"

text \<open>What can be thrown: the error classes the code meets, each with its message, and a
  value that is not an \<open>Error\<close> instance.\<close>

datatype thrown =
    Error string
  | TypeError string
  | SyntaxError string
  | NonError

fun instanceof_Error :: "thrown \<Rightarrow> bool" where
  "instanceof_Error NonError = False"
| "instanceof_Error _ = True"

fun message_of :: "thrown \<Rightarrow> string" where
  "message_of (Error m) = m"
| "message_of (TypeError m) = m"
| "message_of (SyntaxError m) = m"
| "message_of NonError = []"

text \<open>Truthiness, as \<open>||\<close> and \<open>!\<close> test it.\<close>

fun truthy :: "js \<Rightarrow> bool" where
  "truthy JNull = False"
| "truthy (JBool b) = b"
| "truthy (JNum NaN) = False"
| "truthy (JNum (Fin x)) = (x \<noteq> 0)"
| "truthy (JNum _) = True"
| "truthy (JStr s) = (s \<noteq> [])"
| "truthy (JArr _) = True"
| "truthy (JObj _) = True"

text \<open>\<open>a || b\<close> where \<open>a\<close> may be \<open>undefined\<close>.\<close>

fun js_or :: "js option \<Rightarrow> js \<Rightarrow> js" where
  "js_or None b = b"
| "js_or (Some a) b = (if truthy a then a else b)"

text \<open>
  \<open>errorData.detail\<close>: reading a property of \<open>null\<close> throws a \<open>TypeError\<close> (the message is
  the engine's; V8's wording is used); an object yields the property or \<open>undefined\<close>; no
  boolean, number, string or array has a property of this name.
\<close>

fun get_detail :: "js \<Rightarrow> thrown + js option" where
  "get_detail JNull = Inl (TypeError ''Cannot read properties of null'')"
| "get_detail (JObj props) = Inr (map_of props ''detail'')"
| "get_detail _ = Inr None"

text \<open>\<open>{...body, token}\<close>: the properties of \<open>body\<close> in their order, with \<open>token\<close> written
  last: over an existing property of that name in its place, else appended.\<close>

fun obj_set :: "(string \<times> js) list \<Rightarrow> string \<Rightarrow> js \<Rightarrow> (string \<times> js) list" where
  "obj_set [] k v = [(k, v)]"
| "obj_set ((k', v') # ps) k v = (if k' = k then (k, v) # ps else (k', v') # obj_set ps k v)"

text \<open>
  Decimal numerals: the number a string of digits denotes, and the numeral of a natural
  number as the conversion to a string writes it.
\<close>

definition index_value :: "string \<Rightarrow> nat" where
  "index_value s = fold (\<lambda>c n. 10 * n + (of_char c - 48)) s 0"

function index_string :: "nat \<Rightarrow> string" where
  "index_string n =
     (if n < 10 then [''0123456789'' ! n]
      else index_string (n div 10) @ [''0123456789'' ! (n mod 10)])"
  by pat_completeness auto
termination
  by (relation "measure id") auto

declare index_string.simps [simp del]

text \<open>
  An array index is a property name that is the canonical numeral of an integer below
  \<open>2^32 - 1\<close>: turned into a number and back into a string it is itself.
\<close>

definition is_array_index :: "string \<Rightarrow> bool" where
  "is_array_index k = (index_string (index_value k) = k \<and> index_value k < 4294967295)"

text \<open>
  The order in which the own properties of an object are enumerated: the array indices
  first, in ascending numeric order, then the other names in the order they were created.
\<close>

definition own_entries :: "(string \<times> 'v) list \<Rightarrow> (string \<times> 'v) list" where
  "own_entries props =
     sort_key (\<lambda>p. index_value (fst p)) (filter (\<lambda>p. is_array_index (fst p)) props)
     @ filter (\<lambda>p. \<not> is_array_index (fst p)) props"

text \<open>
  \<open>Object.entries(v)\<close>: it throws on \<open>undefined\<close> and \<open>null\<close>; an object gives its entries in
  enumeration order, an array and a string their elements under their indices, a number
  and a boolean nothing.
\<close>

fun Object_entries :: "js option \<Rightarrow> thrown + (string \<times> js) list" where
  "Object_entries None = Inl (TypeError ''Cannot convert undefined or null to object'')"
| "Object_entries (Some JNull) = Inl (TypeError ''Cannot convert undefined or null to object'')"
| "Object_entries (Some (JObj props)) = Inr (own_entries props)"
| "Object_entries (Some (JArr xs)) = Inr (zip (map index_string [0..<length xs]) xs)"
| "Object_entries (Some (JStr s)) =
     Inr (zip (map index_string [0..<length s]) (map (\<lambda>c. JStr [c]) s))"
| "Object_entries (Some _) = Inr []"

text \<open>
  Reading a property by one of the names the dashboard reads (\<open>logs\<close>, \<open>averages\<close>,
  \<open>driver_counts\<close>), none of which is built in or inherited: \<open>null\<close> throws, an object
  yields the property or \<open>undefined\<close>, any other value \<open>undefined\<close>.
\<close>

fun read_property :: "js \<Rightarrow> string \<Rightarrow> thrown + js option" where
  "read_property JNull k = Inl (TypeError ''Cannot read properties of null'')"
| "read_property (JObj props) k = Inr (map_of props k)"
| "read_property _ k = Inr None"

text \<open>
  Subtraction of numbers. The difference of two finite doubles is read as the real
  difference: it has the same sign, which is all a comparator's result is used for.
\<close>

fun js_minus :: "number \<Rightarrow> number \<Rightarrow> number" where
  "js_minus (Fin x) (Fin y) = Fin (x - y)"
| "js_minus NaN _ = NaN"
| "js_minus _ NaN = NaN"
| "js_minus PosInf PosInf = NaN"
| "js_minus NegInf NegInf = NaN"
| "js_minus PosInf _ = PosInf"
| "js_minus NegInf _ = NegInf"
| "js_minus (Fin x) PosInf = NegInf"
| "js_minus (Fin x) NegInf = PosInf"

fun positive :: "number \<Rightarrow> bool" where
  "positive (Fin x) = (0 < x)"
| "positive PosInf = True"
| "positive _ = False"

section \<open>Schema validation\<close>

text \<open>
  The part of the zod library that \<open>sleepLogSchema\<close> uses. A number schema first checks the
  type of its input (\<open>NaN\<close> is not a number to it, an infinity is) and stops there when it
  fails; otherwise it runs every check in the order they were chained and reports each
  one that fails. \<open>min\<close> and \<open>max\<close> are inclusive. A string schema does the same with the
  length of its input. Neither changes the value. An issue carries the path of the field
  and a message that the error map in force derives from its code.
\<close>

datatype parsed_type =
  t_undefined | t_null | t_nan | t_number | t_string | t_boolean | t_array | t_object

fun getParsedType :: "js option \<Rightarrow> parsed_type" where
  "getParsedType None = t_undefined"
| "getParsedType (Some JNull) = t_null"
| "getParsedType (Some (JBool _)) = t_boolean"
| "getParsedType (Some (JNum NaN)) = t_nan"
| "getParsedType (Some (JNum _)) = t_number"
| "getParsedType (Some (JStr _)) = t_string"
| "getParsedType (Some (JArr _)) = t_array"
| "getParsedType (Some (JObj _)) = t_object"

datatype issue_code =
    invalid_type parsed_type parsed_type
  | too_small_number real
  | too_big_number real
  | too_small_string nat

record issue =
  path :: "string list"
  code :: issue_code
  message :: string

datatype number_check = Min real | Max real

datatype string_check = MinLength nat

datatype zod_type = ZodNumber "number_check list" | ZodString "string_check list"

fun num_lt :: "number \<Rightarrow> real \<Rightarrow> bool" where
  "num_lt NaN c = False"
| "num_lt NegInf c = True"
| "num_lt (Fin x) c = (x < c)"
| "num_lt PosInf c = False"

fun num_gt :: "number \<Rightarrow> real \<Rightarrow> bool" where
  "num_gt NaN c = False"
| "num_gt NegInf c = False"
| "num_gt (Fin x) c = (x > c)"
| "num_gt PosInf c = True"

fun number_check_issue :: "number \<Rightarrow> number_check \<Rightarrow> issue_code option" where
  "number_check_issue x (Min c) = (if num_lt x c then Some (too_small_number c) else None)"
| "number_check_issue x (Max c) = (if num_gt x c then Some (too_big_number c) else None)"

fun string_check_issue :: "string \<Rightarrow> string_check \<Rightarrow> issue_code option" where
  "string_check_issue s (MinLength n) = (if length s < n then Some (too_small_string n) else None)"

text \<open>One field: the codes of its issues, or the value when there is none.\<close>

fun zod_parse :: "zod_type \<Rightarrow> js option \<Rightarrow> issue_code list + js" where
  "zod_parse (ZodNumber checks) v =
     (if getParsedType v \<noteq> t_number then Inl [invalid_type t_number (getParsedType v)]
      else case v of
        Some (JNum x) \<Rightarrow>
          (case List.map_filter (number_check_issue x) checks of
             [] \<Rightarrow> Inr (JNum x)
           | cs \<Rightarrow> Inl cs)
      | _ \<Rightarrow> Inl [invalid_type t_number (getParsedType v)])"
| "zod_parse (ZodString checks) v =
     (if getParsedType v \<noteq> t_string then Inl [invalid_type t_string (getParsedType v)]
      else case v of
        Some (JStr s) \<Rightarrow>
          (case List.map_filter (string_check_issue s) checks of
             [] \<Rightarrow> Inr (JStr s)
           | cs \<Rightarrow> Inl cs)
      | _ \<Rightarrow> Inl [invalid_type t_string (getParsedType v)])"

definition make_issue :: "(issue_code \<Rightarrow> string) \<Rightarrow> string \<Rightarrow> issue_code \<Rightarrow> issue" where
  "make_issue em k c = \<lparr>path = [k], code = c, message = em c\<rparr>"

text \<open>
  An object schema parses the fields of its shape in the shape's order, gathers the issues
  of all of them, and builds the output from the shape's keys (a key the shape does not
  name is dropped). An absent property is read as \<open>undefined\<close>.
\<close>

fun parse_shape ::
  "(issue_code \<Rightarrow> string) \<Rightarrow> (string \<times> zod_type) list \<Rightarrow> (string \<times> js) list
     \<Rightarrow> issue list \<times> (string \<times> js) list" where
  "parse_shape em [] props = ([], [])"
| "parse_shape em ((k, t) # shape) props =
     (let (issues, out) = parse_shape em shape props in
      case zod_parse t (map_of props k) of
        Inl cs \<Rightarrow> (map (make_issue em k) cs @ issues, out)
      | Inr v \<Rightarrow> (issues, (k, v) # out))"

text \<open>\<open>schema.parse(input)\<close>: the output, or a \<open>ZodError\<close> with the issues (\<open>Inl\<close>).\<close>

definition zod_object_parse ::
  "(issue_code \<Rightarrow> string) \<Rightarrow> (string \<times> zod_type) list \<Rightarrow> (string \<times> js) list
     \<Rightarrow> issue list + (string \<times> js) list" where
  "zod_object_parse em shape props =
     (case parse_shape em shape props of
        ([], out) \<Rightarrow> Inr out
      | (issues, out) \<Rightarrow> Inl issues)"

definition sleepLogSchema :: "(string \<times> zod_type) list" where
  "sleepLogSchema =
     [(''age'', ZodNumber [Min 1, Max 120]),
      (''gender'', ZodString [MinLength 1]),
      (''sleep_duration'', ZodNumber [Min 0, Max 24]),
      (''stress_level'', ZodNumber [Min 1, Max 10]),
      (''daily_steps'', ZodNumber [Min 0]),
      (''bmi_category'', ZodString [MinLength 1]),
      (''blood_pressure'', ZodString [MinLength 1]),
      (''heart_rate'', ZodNumber [Min 30, Max 220]),
      (''physical_activity'', ZodNumber [Min 0])]"

definition sleepLogSchema_parse ::
  "(issue_code \<Rightarrow> string) \<Rightarrow> (string \<times> js) list \<Rightarrow> issue list + (string \<times> js) list" where
  "sleepLogSchema_parse em input = zod_object_parse em sleepLogSchema input"

section \<open>The world outside the client\<close>

record session =
  access_token :: string

text \<open>A \<open>URL\<close> object: the address it was built from and its query entries.\<close>

record url =
  href :: string
  searchParams :: "(string \<times> string) list"

text \<open>What \<open>fetch\<close> is given: the template string itself (\<open>post\<close>) or a \<open>URL\<close> object's
  serialisation (\<open>get\<close>).\<close>

datatype resource = Literal string | Serialized url

record request =
  http_method :: string
  resource :: resource
  headers :: "(string \<times> string) list"
  body :: "js option"

text \<open>A response: its status and what \<open>response.json()\<close> settles to (\<open>Inl\<close>: it rejects,
  as it does on a body that is not JSON).\<close>

record response =
  status :: nat
  json :: "thrown + js"

definition ok :: "response \<Rightarrow> bool" where
  "ok r = (200 \<le> status r \<and> status r \<le> 299)"

text \<open>
  The environment of one call: the configured base address, the session the provider
  reports, the network, and the built-ins of the language whose results are taken as
  given: \<open>parseInt\<close>, \<open>parseFloat\<close>, the \<open>URL\<close> constructor (it throws on an address it
  cannot parse), the conversion of a value that is not a string to a string, the
  conversion of a string to a number, and the error map of the validation library.
\<close>

record env =
  API_URL :: string
  getSession :: "session option"
  getUser :: bool
  fetch :: "request \<Rightarrow> thrown + response"
  parseInt :: "string \<Rightarrow> number"
  parseFloat :: "string \<Rightarrow> number"
  URL_new :: "string \<Rightarrow> thrown + url"
  ToString :: "js \<Rightarrow> string"
  StringToNumber :: "string \<Rightarrow> number"
  errorMap :: "issue_code \<Rightarrow> string"

definition js_String :: "env \<Rightarrow> js \<Rightarrow> string" where
  "js_String e v = (case v of JStr s \<Rightarrow> s | _ \<Rightarrow> ToString e v)"

text \<open>The conversion to a number that arithmetic applies to its operands; an array or an
  object goes through its string.\<close>

definition ToNumber :: "env \<Rightarrow> js \<Rightarrow> number" where
  "ToNumber e v =
     (case v of
        JNum n \<Rightarrow> n
      | JNull \<Rightarrow> Fin 0
      | JBool b \<Rightarrow> Fin (if b then 1 else 0)
      | JStr t \<Rightarrow> StringToNumber e t
      | _ \<Rightarrow> StringToNumber e (ToString e v))"

section \<open>The API client\<close>

text \<open>\<open>session?.access_token || null\<close>: no session and an empty token both give \<open>null\<close>.\<close>

definition getAuthToken :: "env \<Rightarrow> string option" where
  "getAuthToken e =
     (case getSession e of
        None \<Rightarrow> None
      | Some s \<Rightarrow> if access_token s \<noteq> [] then Some (access_token s) else None)"

definition token_value :: "string option \<Rightarrow> js" where
  "token_value t = (case t of None \<Rightarrow> JNull | Some s \<Rightarrow> JStr s)"

text \<open>
  The tail both methods share: a response that is not \<open>ok\<close> has its body parsed and an
  \<open>Error\<close> thrown with \<open>errorData.detail || 'API request failed'\<close>; an \<open>ok\<close> one has its
  body parsed and returned at the caller's type (the cast is unchecked, so it is a
  parameter).
\<close>

definition handle_response :: "(js \<Rightarrow> 'a) \<Rightarrow> env \<Rightarrow> response \<Rightarrow> thrown + 'a" where
  "handle_response cast e r =
     (if \<not> ok r then
        (case json r of
           Inl err \<Rightarrow> Inl err
         | Inr errorData \<Rightarrow>
             (case get_detail errorData of
                Inl err \<Rightarrow> Inl err
              | Inr d \<Rightarrow> Inl (Error (js_String e (js_or d (JStr ''API request failed''))))))
      else
        (case json r of
           Inl err \<Rightarrow> Inl err
         | Inr v \<Rightarrow> Inr (cast v)))"

text \<open>Each method returns the requests it handed to \<open>fetch\<close> and its outcome.\<close>

definition post_request :: "env \<Rightarrow> string \<Rightarrow> (string \<times> js) list \<Rightarrow> request" where
  "post_request e endpoint b =
     \<lparr>http_method = ''POST'',
      resource = Literal (API_URL e @ endpoint),
      headers = [(''Content-Type'', ''application/json'')],
      body = Some (JObj (obj_set b ''token'' (token_value (getAuthToken e))))\<rparr>"

definition post ::
  "(js \<Rightarrow> 'a) \<Rightarrow> env \<Rightarrow> string \<Rightarrow> (string \<times> js) list \<Rightarrow> request list \<times> (thrown + 'a)" where
  "post cast e endpoint b =
     (let req = post_request e endpoint b in
      case fetch e req of
        Inl err \<Rightarrow> ([req], Inl err)
      | Inr r \<Rightarrow> ([req], handle_response cast e r))"

definition append_param :: "url \<Rightarrow> string \<Rightarrow> string \<Rightarrow> url" where
  "append_param u k v = u\<lparr>searchParams := searchParams u @ [(k, v)]\<rparr>"

definition append_params :: "env \<Rightarrow> url \<Rightarrow> (string \<times> js) list option \<Rightarrow> url" where
  "append_params e u params =
     (case params of
        None \<Rightarrow> u
      | Some ps \<Rightarrow> fold (\<lambda>(k, v) u'. append_param u' k (js_String e v)) ps u)"

definition get_request :: "url \<Rightarrow> request" where
  "get_request u = \<lparr>http_method = ''GET'', resource = Serialized u, headers = [], body = None\<rparr>"

definition get ::
  "(js \<Rightarrow> 'a) \<Rightarrow> env \<Rightarrow> string \<Rightarrow> (string \<times> js) list option \<Rightarrow> request list \<times> (thrown + 'a)" where
  "get cast e endpoint params =
     (case getAuthToken e of
        None \<Rightarrow> ([], Inl (Error ''Authentication token not found.''))
      | Some token \<Rightarrow>
          (case URL_new e (API_URL e @ endpoint) of
             Inl err \<Rightarrow> ([], Inl err)
           | Inr u \<Rightarrow>
               (let req = get_request (append_params e (append_param u ''token'' token) params) in
                case fetch e req of
                  Inl err \<Rightarrow> ([req], Inl err)
                | Inr r \<Rightarrow> ([req], handle_response cast e r))))"

section \<open>The daily log form\<close>

record form_data =
  form_age :: string
  form_gender :: string
  form_sleep_duration :: string
  form_stress_level :: "number list"
  form_daily_steps :: string
  form_bmi_category :: string
  form_blood_pressure :: string
  form_heart_rate :: string
  form_physical_activity :: string

definition initial_form :: form_data where
  "initial_form =
     \<lparr>form_age = [], form_gender = [], form_sleep_duration = [], form_stress_level = [Fin 5],
      form_daily_steps = [], form_bmi_category = [], form_blood_pressure = [],
      form_heart_rate = [], form_physical_activity = []\<rparr>"

text \<open>The values \<open>handleSubmit\<close> hands to the schema, after numeric coercion. The first
  element of an empty slider array is \<open>undefined\<close>.\<close>

record metrics =
  age :: number
  gender :: string
  sleep_duration :: number
  stress_level :: "number option"
  daily_steps :: number
  bmi_category :: string
  blood_pressure :: string
  heart_rate :: number
  physical_activity :: number

definition coerce :: "env \<Rightarrow> form_data \<Rightarrow> metrics" where
  "coerce e fd =
     \<lparr>age = parseInt e (form_age fd),
      gender = form_gender fd,
      sleep_duration = parseFloat e (form_sleep_duration fd),
      stress_level = (case form_stress_level fd of [] \<Rightarrow> None | x # _ \<Rightarrow> Some x),
      daily_steps = parseInt e (form_daily_steps fd),
      bmi_category = form_bmi_category fd,
      blood_pressure = form_blood_pressure fd,
      heart_rate = parseInt e (form_heart_rate fd),
      physical_activity = parseInt e (form_physical_activity fd)\<rparr>"

text \<open>The object literal built from them, in the order it is written.\<close>

definition to_object :: "metrics \<Rightarrow> (string \<times> js) list" where
  "to_object m =
     [(''age'', JNum (age m)),
      (''gender'', JStr (gender m)),
      (''sleep_duration'', JNum (sleep_duration m))]
     @ (case stress_level m of None \<Rightarrow> [] | Some x \<Rightarrow> [(''stress_level'', JNum x)])
     @ [(''daily_steps'', JNum (daily_steps m)),
        (''bmi_category'', JStr (bmi_category m)),
        (''blood_pressure'', JStr (blood_pressure m)),
        (''heart_rate'', JNum (heart_rate m)),
        (''physical_activity'', JNum (physical_activity m))]"

record toast =
  title :: string
  description :: string
  variant :: "string option"

text \<open>Both pages keep a loading flag beside their own state.\<close>

record view_state =
  isLoading :: bool

record log_state = view_state +
  formData :: form_data
  errors :: "string \<rightharpoonup> string"

text \<open>What one run of a handler leaves: the component's state, the requests handed to
  \<open>fetch\<close>, and the toasts shown.\<close>

record 's outcome =
  state :: 's
  requests :: "request list"
  toasts :: "toast list"

text \<open>The success toast's title ends in an emoji in the source; it is left out here.\<close>

text \<open>\<open>error.errors.forEach(err => fieldErrors[err.path[0]] = err.message)\<close>: a later
  issue of a field overwrites an earlier one. The property name of an empty path is
  \<open>undefined\<close> turned into a string.\<close>

definition first_path :: "issue \<Rightarrow> string" where
  "first_path err = (case path err of [] \<Rightarrow> ''undefined'' | k # _ \<Rightarrow> k)"

definition assign_error :: "issue \<Rightarrow> (string \<rightharpoonup> string) \<Rightarrow> (string \<rightharpoonup> string)" where
  "assign_error err m = m(first_path err \<mapsto> message err)"

definition fieldErrors :: "issue list \<Rightarrow> (string \<rightharpoonup> string)" where
  "fieldErrors issues = fold assign_error issues Map.empty"

definition error_text :: "thrown \<Rightarrow> string" where
  "error_text err =
     (if instanceof_Error err then message_of err else ''An unexpected error occurred.'')"

definition handleSubmit :: "env \<Rightarrow> log_state \<Rightarrow> log_state outcome" where
  "handleSubmit e s =
     (let s1 = s\<lparr>isLoading := True, errors := Map.empty\<rparr> in
      case sleepLogSchema_parse (errorMap e) (to_object (coerce e (formData s1))) of
        Inl issues \<Rightarrow>
          \<lparr>state = s1\<lparr>errors := fieldErrors issues, isLoading := False\<rparr>,
           requests = [], toasts = []\<rparr>
      | Inr validatedData \<Rightarrow>
          if \<not> getUser e then
            \<lparr>state = s1\<lparr>isLoading := False\<rparr>, requests = [],
             toasts = [\<lparr>title = ''Authentication required'',
                        description = ''Please sign in to log your data.'',
                        variant = Some ''destructive''\<rparr>]\<rparr>
          else
            (case post (\<lambda>v. v) e ''/log'' validatedData of
               (reqs, Inl err) \<Rightarrow>
                 \<lparr>state = s1\<lparr>isLoading := False\<rparr>, requests = reqs,
                  toasts = [\<lparr>title = ''Failed to save log'',
                             description = error_text err,
                             variant = Some ''destructive''\<rparr>]\<rparr>
             | (reqs, Inr _) \<Rightarrow>
                 \<lparr>state = s1\<lparr>formData := initial_form, isLoading := False\<rparr>, requests = reqs,
                  toasts = [\<lparr>title = ''Daily log stored successfully!'',
                             description = ''Your sleep data has been recorded.'',
                             variant = None\<rparr>]\<rparr>))"

section \<open>The dashboard\<close>

text \<open>The source file holds two versions of the page. This is the later one, which asks the
  backend through the API client; the earlier one queried the database itself and
  averaged the rows in the browser.\<close>

text \<open>
  The type parameters of \<open>get\<close> and the declared types of the state are erased when the
  code runs: the state holds whatever value was read from the response, \<open>undefined\<close>
  included.
\<close>

record driver_count =
  driver :: string
  count :: js

record dashboard_state = view_state +
  logs :: "js option"
  averages :: "js option"
  topDrivers :: "driver_count list"
  days :: string

text \<open>
  \<open>Array.prototype.sort\<close> with a comparator is a stable sort: an element goes after another
  when the comparator's result for the two is positive (not-a-number counts as zero), and
  elements it does not separate keep their order. Insertion from the right, each element
  placed before the first one it is not to go after, is such a sort. (On a comparator that
  is not consistent the order is the engine's choice, and this is one.)
\<close>

fun insert_by :: "('a \<Rightarrow> 'a \<Rightarrow> number) \<Rightarrow> 'a \<Rightarrow> 'a list \<Rightarrow> 'a list" where
  "insert_by cmp x [] = [x]"
| "insert_by cmp x (y # ys) =
     (if positive (cmp x y) then y # insert_by cmp x ys else x # y # ys)"

definition js_sort :: "('a \<Rightarrow> 'a \<Rightarrow> number) \<Rightarrow> 'a list \<Rightarrow> 'a list" where
  "js_sort cmp xs = foldr (insert_by cmp) xs []"

text \<open>\<open>([, a], [, b]) => b - a\<close>\<close>

definition by_count_desc :: "env \<Rightarrow> string \<times> js \<Rightarrow> string \<times> js \<Rightarrow> number" where
  "by_count_desc e x y = js_minus (ToNumber e (snd y)) (ToNumber e (snd x))"

text \<open>\<open>Object.entries(counts).sort(...).slice(0, 5).map(([driver, count]) => ({ driver, count }))\<close>\<close>

definition formattedDrivers :: "env \<Rightarrow> js option \<Rightarrow> thrown + driver_count list" where
  "formattedDrivers e counts =
     (case Object_entries counts of
        Inl err \<Rightarrow> Inl err
      | Inr entries \<Rightarrow>
          Inr (map (\<lambda>(d, c). \<lparr>driver = d, count = c\<rparr>)
                 (take 5 (js_sort (by_count_desc e) entries))))"

text \<open>
  \<open>Promise.all\<close> of two promises: both values, or the reason of the promise that rejects
  first. When both reject, which one is first is the scheduler's choice, a parameter.
\<close>

fun promise_all :: "bool \<Rightarrow> thrown + 'a \<Rightarrow> thrown + 'b \<Rightarrow> thrown + ('a \<times> 'b)" where
  "promise_all first_wins (Inr a) (Inr b) = Inr (a, b)"
| "promise_all first_wins (Inl e1) (Inr b) = Inl e1"
| "promise_all first_wins (Inr a) (Inl e2) = Inl e2"
| "promise_all first_wins (Inl e1) (Inl e2) = Inl (if first_wins then e1 else e2)"

definition days_params :: "env \<Rightarrow> string \<Rightarrow> (string \<times> js) list option" where
  "days_params e d = Some [(''days'', JNum (parseInt e d))]"

text \<open>
  The statements of the \<open>try\<close> block after both responses are in, in their order. Each
  setter takes effect when it is called, so a statement that throws leaves the setters
  before it done and those after it undone. The result is the state and what was thrown,
  if anything.
\<close>

definition apply_responses ::
  "env \<Rightarrow> js \<Rightarrow> js \<Rightarrow> dashboard_state \<Rightarrow> dashboard_state \<times> thrown option" where
  "apply_responses e seriesData driversData s =
     (case read_property seriesData ''logs'' of
        Inl err \<Rightarrow> (s, Some err)
      | Inr l \<Rightarrow>
          (let s2 = s\<lparr>logs := l\<rparr> in
           case read_property seriesData ''averages'' of
             Inl err \<Rightarrow> (s2, Some err)
           | Inr a \<Rightarrow>
               (let s3 = s2\<lparr>averages := a\<rparr> in
                case read_property driversData ''driver_counts'' of
                  Inl err \<Rightarrow> (s3, Some err)
                | Inr counts \<Rightarrow>
                    (case formattedDrivers e counts of
                       Inl err \<Rightarrow> (s3, Some err)
                     | Inr formatted \<Rightarrow> (s3\<lparr>topDrivers := formatted\<rparr>, None)))))"

definition fetchDashboardData :: "env \<Rightarrow> bool \<Rightarrow> dashboard_state \<Rightarrow> dashboard_state outcome" where
  "fetchDashboardData e first_wins s =
     (let s1 = s\<lparr>isLoading := True\<rparr>;
          (reqs1, r1) = get (\<lambda>v. v) e ''/dashboard/series'' (days_params e (days s1));
          (reqs2, r2) = get (\<lambda>v. v) e ''/dashboard/top-drivers'' (days_params e (days s1));
          (s2, thrown) =
            (case promise_all first_wins r1 r2 of
               Inl err \<Rightarrow> (s1, Some err)
             | Inr (seriesData, driversData) \<Rightarrow> apply_responses e seriesData driversData s1)
      in \<lparr>state = s2\<lparr>isLoading := False\<rparr>,
          requests = reqs1 @ reqs2,
          toasts =
            (case thrown of
               None \<Rightarrow> []
             | Some err \<Rightarrow>
                 [\<lparr>title = ''Failed to load dashboard'',
                   description = error_text err,
                   variant = Some ''destructive''\<rparr>])\<rparr>)"

section \<open>The documented ranges\<close>

text \<open>
  What the specification says of a valid input, written from its words: each number in
  its interval (an unbounded field may be infinite, a bounded one may not), each string
  non-empty.
\<close>

definition in_interval :: "number \<Rightarrow> real \<Rightarrow> real \<Rightarrow> bool" where
  "in_interval n lo hi = (case n of Fin x \<Rightarrow> lo \<le> x \<and> x \<le> hi | _ \<Rightarrow> False)"

definition at_least :: "number \<Rightarrow> real \<Rightarrow> bool" where
  "at_least n lo = (case n of Fin x \<Rightarrow> lo \<le> x | PosInf \<Rightarrow> True | _ \<Rightarrow> False)"

definition within_documented_ranges :: "metrics \<Rightarrow> bool" where
  "within_documented_ranges m =
     (in_interval (age m) 1 120 \<and>
      in_interval (sleep_duration m) 0 24 \<and>
      (case stress_level m of None \<Rightarrow> False | Some x \<Rightarrow> in_interval x 1 10) \<and>
      at_least (daily_steps m) 0 \<and>
      in_interval (heart_rate m) 30 220 \<and>
      at_least (physical_activity m) 0 \<and>
      gender m \<noteq> [] \<and> bmi_category m \<noteq> [] \<and> blood_pressure m \<noteq> [])"

text \<open>A field is offending when it is missing or outside its range.\<close>

definition offending :: "metrics \<Rightarrow> string \<Rightarrow> bool" where
  "offending m k =
     (k = ''age'' \<and> \<not> in_interval (age m) 1 120 \<or>
      k = ''gender'' \<and> gender m = [] \<or>
      k = ''sleep_duration'' \<and> \<not> in_interval (sleep_duration m) 0 24 \<or>
      k = ''stress_level'' \<and>
        (case stress_level m of None \<Rightarrow> True | Some x \<Rightarrow> \<not> in_interval x 1 10) \<or>
      k = ''daily_steps'' \<and> \<not> at_least (daily_steps m) 0 \<or>
      k = ''bmi_category'' \<and> bmi_category m = [] \<or>
      k = ''blood_pressure'' \<and> blood_pressure m = [] \<or>
      k = ''heart_rate'' \<and> \<not> in_interval (heart_rate m) 30 220 \<or>
      k = ''physical_activity'' \<and> \<not> at_least (physical_activity m) 0)"

text \<open>
  The first constraint a field fails, in the order a reader meets them: the value is
  there and is a number, it is not below the minimum, it is not above the maximum; for a
  string, it is not empty.
\<close>

definition number_violation :: "number option \<Rightarrow> real \<Rightarrow> real option \<Rightarrow> issue_code option" where
  "number_violation v lo hi =
     (case v of
        None \<Rightarrow> Some (invalid_type t_number t_undefined)
      | Some NaN \<Rightarrow> Some (invalid_type t_number t_nan)
      | Some x \<Rightarrow>
          if num_lt x lo then Some (too_small_number lo)
          else (case hi of
                  None \<Rightarrow> None
                | Some h \<Rightarrow> if num_gt x h then Some (too_big_number h) else None))"

definition string_violation :: "string \<Rightarrow> issue_code option" where
  "string_violation s = (if s = [] then Some (too_small_string 1) else None)"

definition first_violation :: "metrics \<Rightarrow> string \<Rightarrow> issue_code option" where
  "first_violation m k =
     (if k = ''age'' then number_violation (Some (age m)) 1 (Some 120)
      else if k = ''gender'' then string_violation (gender m)
      else if k = ''sleep_duration'' then number_violation (Some (sleep_duration m)) 0 (Some 24)
      else if k = ''stress_level'' then number_violation (stress_level m) 1 (Some 10)
      else if k = ''daily_steps'' then number_violation (Some (daily_steps m)) 0 None
      else if k = ''bmi_category'' then string_violation (bmi_category m)
      else if k = ''blood_pressure'' then string_violation (blood_pressure m)
      else if k = ''heart_rate'' then number_violation (Some (heart_rate m)) 30 (Some 220)
      else if k = ''physical_activity'' then number_violation (Some (physical_activity m)) 0 None
      else None)"

definition field_names :: "string list" where
  "field_names = map fst sleepLogSchema"

text \<open>The issues of one field when at most its first violation is reported.\<close>

definition field_issues ::
  "(issue_code \<Rightarrow> string) \<Rightarrow> (string \<Rightarrow> issue_code option) \<Rightarrow> string \<Rightarrow> issue list" where
  "field_issues em f k = (case f k of None \<Rightarrow> [] | Some c \<Rightarrow> [make_issue em k c])"

text \<open>The \<open>detail\<close> of an error body, as the backend's contract has it: a property of a
  JSON object.\<close>

definition detail_field :: "js \<Rightarrow> js option" where
  "detail_field errorData = (case errorData of JObj props \<Rightarrow> map_of props ''detail'' | _ \<Rightarrow> None)"

section \<open>Example inputs\<close>

text \<open>The messages of the library's default error map, for bounds that are natural
  numbers, as all bounds of the schema are.\<close>

fun type_name :: "parsed_type \<Rightarrow> string" where
  "type_name t_undefined = ''undefined''"
| "type_name t_null = ''null''"
| "type_name t_nan = ''nan''"
| "type_name t_number = ''number''"
| "type_name t_string = ''string''"
| "type_name t_boolean = ''boolean''"
| "type_name t_array = ''array''"
| "type_name t_object = ''object''"

fun example_errorMap :: "issue_code \<Rightarrow> string" where
  "example_errorMap (invalid_type expected received) =
     (if received = t_undefined then ''Required''
      else ''Expected '' @ type_name expected @ '', received '' @ type_name received)"
| "example_errorMap (too_small_number c) =
     ''Number must be greater than or equal to '' @ index_string (nat \<lfloor>c\<rfloor>)"
| "example_errorMap (too_big_number c) =
     ''Number must be less than or equal to '' @ index_string (nat \<lfloor>c\<rfloor>)"
| "example_errorMap (too_small_string n) =
     ''String must contain at least '' @ index_string n @ '' character(s)''"

definition example_parseInt :: "string \<Rightarrow> number" where
  "example_parseInt s =
     (if s = ''34'' then Fin 34 else if s = ''8000'' then Fin 8000
      else if s = ''72'' then Fin 72 else if s = ''30'' then Fin 30
      else if s = ''7'' then Fin 7 else if s = ''150'' then Fin 150 else NaN)"

definition example_parseFloat :: "string \<Rightarrow> number" where
  "example_parseFloat s = (if s = ''7.5'' then Fin (15 / 2) else NaN)"

text \<open>Conversions that are right on the values the examples convert: natural numbers and
  their numerals, and a list of objects.\<close>

fun example_ToString :: "js \<Rightarrow> string" where
  "example_ToString (JArr _) = ''[object Object]''"
| "example_ToString (JNum (Fin x)) = index_string (nat \<lfloor>x\<rfloor>)"
| "example_ToString (JNum _) = ''NaN''"
| "example_ToString _ = ''null''"

definition example_StringToNumber :: "string \<Rightarrow> number" where
  "example_StringToNumber t =
     (if index_string (index_value t) = t then Fin (real (index_value t)) else NaN)"

definition example_URL :: "string \<Rightarrow> thrown + url" where
  "example_URL s = Inr \<lparr>href = s, searchParams = []\<rparr>"

text \<open>A backend that answers every request with 200 and an empty object.\<close>

definition example_env :: env where
  "example_env =
     \<lparr>API_URL = ''https://api.example'',
      getSession = Some \<lparr>access_token = ''jwt''\<rparr>,
      getUser = True,
      fetch = (\<lambda>_. Inr \<lparr>status = 200, json = Inr (JObj [])\<rparr>),
      parseInt = example_parseInt,
      parseFloat = example_parseFloat,
      URL_new = example_URL,
      ToString = example_ToString,
      StringToNumber = example_StringToNumber,
      errorMap = example_errorMap\<rparr>"

text \<open>The same with nobody signed in.\<close>

definition signed_out_env :: env where
  "signed_out_env = example_env\<lparr>getSession := None\<rparr>"

text \<open>A gateway that answers 502 with an HTML page: the body is not JSON.\<close>

definition bad_gateway_env :: env where
  "bad_gateway_env =
     example_env\<lparr>fetch := (\<lambda>_. Inr \<lparr>status = 502,
        json = Inl (SyntaxError ''Unexpected token < in JSON at position 0'')\<rparr>)\<rparr>"

text \<open>A backend that answers 422 with a list of validation errors as its detail, one that
  answers 400 with an empty detail, and one that answers 429 with a message.\<close>

definition unprocessable_env :: env where
  "unprocessable_env =
     example_env\<lparr>fetch := (\<lambda>_. Inr \<lparr>status = 422,
        json = Inr (JObj [(''detail'', JArr [JObj [(''msg'', JStr ''field required'')]])])\<rparr>)\<rparr>"

definition empty_detail_env :: env where
  "empty_detail_env =
     example_env\<lparr>fetch := (\<lambda>_. Inr \<lparr>status = 400, json = Inr (JObj [(''detail'', JStr [])])\<rparr>)\<rparr>"

definition quota_env :: env where
  "quota_env =
     example_env\<lparr>fetch := (\<lambda>_. Inr \<lparr>status = 429,
        json = Inr (JObj [(''detail'', JStr ''quota exceeded'')])\<rparr>)\<rparr>"

definition example_form :: form_data where
  "example_form =
     \<lparr>form_age = ''34'', form_gender = ''Female'', form_sleep_duration = ''7.5'',
      form_stress_level = [Fin 5], form_daily_steps = ''8000'', form_bmi_category = ''Normal'',
      form_blood_pressure = ''120/80'', form_heart_rate = ''72'',
      form_physical_activity = ''30''\<rparr>"

definition blank_log :: log_state where
  "blank_log = \<lparr>isLoading = False, formData = initial_form, errors = Map.empty\<rparr>"

definition filled_log :: log_state where
  "filled_log = \<lparr>isLoading = False, formData = example_form, errors = Map.empty\<rparr>"

definition series_body :: js where
  "series_body =
     JObj [(''logs'', JArr [JObj [(''created_at'', JStr ''2024-05-01''),
                                  (''sleep_duration'', JNum (Fin 7)),
                                  (''predicted_quality'', JNull),
                                  (''stress_level'', JNum (Fin 4)),
                                  (''daily_steps'', JNum (Fin 9000))]]),
           (''averages'', JObj [(''sleep'', JNum (Fin 7)), (''quality'', JNum (Fin 8)),
                                (''stress'', JNum (Fin 4)), (''steps'', JNum (Fin 9000))])]"

definition drivers_body :: js where
  "drivers_body =
     JObj [(''latest_top_drivers'', JArr [JStr ''stress'']),
           (''driver_counts'', JObj [(''A'', JNum (Fin 3)), (''B'', JNum (Fin 5)),
                                     (''C'', JNum (Fin 5)), (''D'', JNum (Fin 1))])]"

definition initial_dashboard :: dashboard_state where
  "initial_dashboard =
     \<lparr>isLoading = True,
      logs = Some (JArr []),
      averages = Some (JObj [(''sleep'', JNum (Fin 0)), (''quality'', JNum (Fin 0)),
                             (''stress'', JNum (Fin 0)), (''steps'', JNum (Fin 0))]),
      topDrivers = [], days = ''7''\<rparr>"

definition is_series_request :: "request \<Rightarrow> bool" where
  "is_series_request req =
     (case resource req of
        Serialized u \<Rightarrow> href u = ''https://api.example/dashboard/series''
      | Literal _ \<Rightarrow> False)"

text \<open>A backend on which both dashboard endpoints answer; one on which the series endpoint
  answers and the top-drivers endpoint is down; and one on which the series endpoint
  answers 200 with the body \<open>null\<close>.\<close>

definition dashboard_env :: env where
  "dashboard_env =
     example_env\<lparr>fetch := (\<lambda>req.
        if is_series_request req then Inr \<lparr>status = 200, json = Inr series_body\<rparr>
        else Inr \<lparr>status = 200, json = Inr drivers_body\<rparr>)\<rparr>"

definition drivers_down_env :: env where
  "drivers_down_env =
     example_env\<lparr>fetch := (\<lambda>req.
        if is_series_request req then Inr \<lparr>status = 200, json = Inr series_body\<rparr>
        else Inr \<lparr>status = 500, json = Inr (JObj [(''detail'', JStr ''drivers unavailable'')])\<rparr>)\<rparr>"

definition null_series_env :: env where
  "null_series_env =
     example_env\<lparr>fetch := (\<lambda>req.
        if is_series_request req then Inr \<lparr>status = 200, json = Inr JNull\<rparr>
        else Inr \<lparr>status = 200, json = Inr drivers_body\<rparr>)\<rparr>"

section \<open>Validation\<close>

lemma zod_number2_opt:
  "lo \<le> hi \<Longrightarrow> zod_parse (ZodNumber [Min lo, Max hi]) (map_option JNum v) =
     (case number_violation v lo (Some hi) of None \<Rightarrow> Inr (JNum (the v)) | Some c \<Rightarrow> Inl [c])"
  apply (cases v)
   apply (simp add: number_violation_def)
  subgoal for x
    by (cases x) (auto simp: number_violation_def)
  done

lemma zod_number2:
  "lo \<le> hi \<Longrightarrow> zod_parse (ZodNumber [Min lo, Max hi]) (Some (JNum x)) =
     (case number_violation (Some x) lo (Some hi) of None \<Rightarrow> Inr (JNum x) | Some c \<Rightarrow> Inl [c])"
  by (cases x) (auto simp: number_violation_def)

lemma zod_number1:
  "zod_parse (ZodNumber [Min lo]) (Some (JNum x)) =
     (case number_violation (Some x) lo None of None \<Rightarrow> Inr (JNum x) | Some c \<Rightarrow> Inl [c])"
  by (cases x) (auto simp: number_violation_def)

lemma zod_string1:
  "zod_parse (ZodString [MinLength (Suc 0)]) (Some (JStr s)) =
     (case string_violation s of None \<Rightarrow> Inr (JStr s) | Some c \<Rightarrow> Inl [c])"
  by (cases s) (auto simp: string_violation_def)

lemma map_of_to_object:
  "map_of (to_object m) ''age'' = Some (JNum (age m))"
  "map_of (to_object m) ''gender'' = Some (JStr (gender m))"
  "map_of (to_object m) ''sleep_duration'' = Some (JNum (sleep_duration m))"
  "map_of (to_object m) ''stress_level'' = map_option JNum (stress_level m)"
  "map_of (to_object m) ''daily_steps'' = Some (JNum (daily_steps m))"
  "map_of (to_object m) ''bmi_category'' = Some (JStr (bmi_category m))"
  "map_of (to_object m) ''blood_pressure'' = Some (JStr (blood_pressure m))"
  "map_of (to_object m) ''heart_rate'' = Some (JNum (heart_rate m))"
  "map_of (to_object m) ''physical_activity'' = Some (JNum (physical_activity m))"
  by (simp_all add: to_object_def split: option.split)

lemma number_violation_interval:
  "lo \<le> hi \<Longrightarrow> (number_violation (Some x) lo (Some hi) = None) = in_interval x lo hi"
  by (cases x) (auto simp: number_violation_def in_interval_def)

lemma number_violation_at_least:
  "(number_violation (Some x) lo None = None) = at_least x lo"
  by (cases x) (auto simp: number_violation_def at_least_def)

lemma number_violation_undefined: "number_violation None lo hi \<noteq> None"
  by (simp add: number_violation_def)

lemma string_violation_empty: "(string_violation s = None) = (s \<noteq> [])"
  by (simp add: string_violation_def)

lemma field_names_eq:
  "field_names = [''age'', ''gender'', ''sleep_duration'', ''stress_level'', ''daily_steps'',
     ''bmi_category'', ''blood_pressure'', ''heart_rate'', ''physical_activity'']"
  by (simp add: field_names_def sleepLogSchema_def)

lemma first_violation_simps:
  "first_violation m ''age'' = number_violation (Some (age m)) 1 (Some 120)"
  "first_violation m ''gender'' = string_violation (gender m)"
  "first_violation m ''sleep_duration'' = number_violation (Some (sleep_duration m)) 0 (Some 24)"
  "first_violation m ''stress_level'' = number_violation (stress_level m) 1 (Some 10)"
  "first_violation m ''daily_steps'' = number_violation (Some (daily_steps m)) 0 None"
  "first_violation m ''bmi_category'' = string_violation (bmi_category m)"
  "first_violation m ''blood_pressure'' = string_violation (blood_pressure m)"
  "first_violation m ''heart_rate'' = number_violation (Some (heart_rate m)) 30 (Some 220)"
  "first_violation m ''physical_activity'' = number_violation (Some (physical_activity m)) 0 None"
  by (simp_all add: first_violation_def)

lemma first_violation_other: "k \<notin> set field_names \<Longrightarrow> first_violation m k = None"
  by (simp add: field_names_eq first_violation_def)

lemma offending_simps:
  "offending m ''age'' = (\<not> in_interval (age m) 1 120)"
  "offending m ''gender'' = (gender m = [])"
  "offending m ''sleep_duration'' = (\<not> in_interval (sleep_duration m) 0 24)"
  "offending m ''stress_level'' =
     (case stress_level m of None \<Rightarrow> True | Some x \<Rightarrow> \<not> in_interval x 1 10)"
  "offending m ''daily_steps'' = (\<not> at_least (daily_steps m) 0)"
  "offending m ''bmi_category'' = (bmi_category m = [])"
  "offending m ''blood_pressure'' = (blood_pressure m = [])"
  "offending m ''heart_rate'' = (\<not> in_interval (heart_rate m) 30 220)"
  "offending m ''physical_activity'' = (\<not> at_least (physical_activity m) 0)"
  by (simp_all add: offending_def)

lemma offending_other: "k \<notin> set field_names \<Longrightarrow> \<not> offending m k"
  by (simp add: field_names_eq offending_def)

lemma fold_assign_error: "fold assign_error xs m0 = m0 ++ fold assign_error xs Map.empty"
proof (induction xs arbitrary: m0)
  case Nil
  then show ?case by simp
next
  case (Cons x xs)
  have "fold assign_error (x # xs) m0 = assign_error x m0 ++ fold assign_error xs Map.empty"
    using Cons.IH[of "assign_error x m0"] by simp
  also have "assign_error x m0 = m0 ++ assign_error x Map.empty"
    by (simp add: assign_error_def)
  also have "(m0 ++ assign_error x Map.empty) ++ fold assign_error xs Map.empty =
      m0 ++ fold assign_error (x # xs) Map.empty"
    using Cons.IH[of "assign_error x Map.empty"] by simp
  finally show ?case .
qed

lemma fieldErrors_append: "fieldErrors (xs @ ys) = fieldErrors xs ++ fieldErrors ys"
  unfolding fieldErrors_def fold_append comp_def
  by (rule fold_assign_error)

lemma fieldErrors_field_issues:
  "fieldErrors (field_issues em f k) = (case f k of None \<Rightarrow> Map.empty | Some c \<Rightarrow> [k \<mapsto> em c])"
  by (simp add: field_issues_def fieldErrors_def assign_error_def make_issue_def first_path_def
      split: option.split)

lemma fieldErrors_concat:
  "fieldErrors (concat (map (field_issues em f) ks)) k =
     (if k \<in> set ks then map_option em (f k) else None)"
proof (induction ks rule: rev_induct)
  case Nil
  then show ?case by (simp add: fieldErrors_def)
next
  case (snoc x xs)
  then show ?case
    by (auto simp: fieldErrors_append fieldErrors_field_issues map_add_def split: option.splits)
qed

lemma parse_shape_fst:
  "fst (parse_shape em shape props) =
     concat (map (\<lambda>(k, t). case zod_parse t (map_of props k) of
                               Inl cs \<Rightarrow> map (make_issue em k) cs | Inr v \<Rightarrow> []) shape)"
  by (induction shape) (auto split: prod.splits sum.splits)

lemma parse_shape_snd:
  "snd (parse_shape em shape props) =
     concat (map (\<lambda>(k, t). case zod_parse t (map_of props k) of
                               Inl cs \<Rightarrow> [] | Inr v \<Rightarrow> [(k, v)]) shape)"
  by (induction shape) (auto split: prod.splits sum.splits)

lemma number_violation_opt:
  "lo \<le> hi \<Longrightarrow> (number_violation v lo (Some hi) = None) =
     (case v of None \<Rightarrow> False | Some x \<Rightarrow> in_interval x lo hi)"
  by (cases v) (simp_all add: number_violation_undefined number_violation_interval)

lemma offending_iff_known:
  assumes "k \<in> set field_names"
  shows "offending m k = (first_violation m k \<noteq> None)"
proof -
  from assms have "k = ''age'' \<or> k = ''gender'' \<or> k = ''sleep_duration''
    \<or> k = ''stress_level'' \<or> k = ''daily_steps'' \<or> k = ''bmi_category''
    \<or> k = ''blood_pressure'' \<or> k = ''heart_rate'' \<or> k = ''physical_activity''"
    by (simp add: field_names_eq)
  then show ?thesis
    by (elim disjE)
      (simp_all add: offending_simps first_violation_simps number_violation_interval
        number_violation_at_least number_violation_opt string_violation_empty
        split: option.split)
qed

lemma offending_iff: "offending m k = (first_violation m k \<noteq> None)"
  by (cases "k \<in> set field_names")
     (simp_all add: offending_iff_known offending_other first_violation_other)

lemma within_iff: "within_documented_ranges m = (\<forall>k. \<not> offending m k)"
proof -
  have "(\<forall>k. \<not> offending m k) = (\<forall>k\<in>set field_names. \<not> offending m k)"
    using offending_other by blast
  also have "\<dots> = within_documented_ranges m"
    unfolding field_names_eq
    by (simp add: offending_simps within_documented_ranges_def split: option.split) blast
  finally show ?thesis by simp
qed

lemma sleepLog_field_issues:
  "(case zod_parse (ZodNumber [Min 1, Max 120]) (Some (JNum (age m))) of
      Inl cs \<Rightarrow> map (make_issue em ''age'') cs | Inr v \<Rightarrow> []) =
   field_issues em (first_violation m) ''age''"
  "(case zod_parse (ZodString [MinLength (Suc 0)]) (Some (JStr (gender m))) of
      Inl cs \<Rightarrow> map (make_issue em ''gender'') cs | Inr v \<Rightarrow> []) =
   field_issues em (first_violation m) ''gender''"
  "(case zod_parse (ZodNumber [Min 0, Max 24]) (Some (JNum (sleep_duration m))) of
      Inl cs \<Rightarrow> map (make_issue em ''sleep_duration'') cs | Inr v \<Rightarrow> []) =
   field_issues em (first_violation m) ''sleep_duration''"
  "(case zod_parse (ZodNumber [Min 1, Max 10]) (map_option JNum (stress_level m)) of
      Inl cs \<Rightarrow> map (make_issue em ''stress_level'') cs | Inr v \<Rightarrow> []) =
   field_issues em (first_violation m) ''stress_level''"
  "(case zod_parse (ZodNumber [Min 0]) (Some (JNum (daily_steps m))) of
      Inl cs \<Rightarrow> map (make_issue em ''daily_steps'') cs | Inr v \<Rightarrow> []) =
   field_issues em (first_violation m) ''daily_steps''"
  "(case zod_parse (ZodString [MinLength (Suc 0)]) (Some (JStr (bmi_category m))) of
      Inl cs \<Rightarrow> map (make_issue em ''bmi_category'') cs | Inr v \<Rightarrow> []) =
   field_issues em (first_violation m) ''bmi_category''"
  "(case zod_parse (ZodString [MinLength (Suc 0)]) (Some (JStr (blood_pressure m))) of
      Inl cs \<Rightarrow> map (make_issue em ''blood_pressure'') cs | Inr v \<Rightarrow> []) =
   field_issues em (first_violation m) ''blood_pressure''"
  "(case zod_parse (ZodNumber [Min 30, Max 220]) (Some (JNum (heart_rate m))) of
      Inl cs \<Rightarrow> map (make_issue em ''heart_rate'') cs | Inr v \<Rightarrow> []) =
   field_issues em (first_violation m) ''heart_rate''"
  "(case zod_parse (ZodNumber [Min 0]) (Some (JNum (physical_activity m))) of
      Inl cs \<Rightarrow> map (make_issue em ''physical_activity'') cs | Inr v \<Rightarrow> []) =
   field_issues em (first_violation m) ''physical_activity''"
  by (simp_all add: field_issues_def first_violation_simps zod_number2 zod_number2_opt
      zod_number1 zod_string1 del: zod_parse.simps split: option.split)

lemma sleepLog_issues:
  "fst (parse_shape em sleepLogSchema (to_object m)) =
     concat (map (field_issues em (first_violation m)) field_names)"
  unfolding parse_shape_fst field_names_eq
  by (simp add: sleepLogSchema_def map_of_to_object sleepLog_field_issues del: zod_parse.simps)

lemma zod_object_parse_eq:
  "zod_object_parse em shape props =
     (if fst (parse_shape em shape props) = [] then Inr (snd (parse_shape em shape props))
      else Inl (fst (parse_shape em shape props)))"
  by (simp add: zod_object_parse_def split: prod.split list.split)

lemma field_issues_paths:
  "map first_path (concat (map (field_issues em f) ks)) = filter (\<lambda>k. f k \<noteq> None) ks"
  by (induction ks)
     (auto simp: field_issues_def make_issue_def first_path_def split: option.splits)

lemma field_issues_members:
  "i \<in> set (concat (map (field_issues em f) ks)) \<Longrightarrow>
     f (first_path i) = Some (code i) \<and> message i = em (code i)"
  by (induction ks)
     (auto simp: field_issues_def make_issue_def first_path_def split: option.splits)

lemma distinct_field_names: "distinct field_names"
  by (simp add: field_names_eq)

lemma all_valid_out:
  assumes "\<forall>k. first_violation m k = None"
  shows "snd (parse_shape em sleepLogSchema (to_object m)) = to_object m"
proof -
  have v: "first_violation m ''age'' = None" "first_violation m ''gender'' = None"
    "first_violation m ''sleep_duration'' = None" "first_violation m ''stress_level'' = None"
    "first_violation m ''daily_steps'' = None" "first_violation m ''bmi_category'' = None"
    "first_violation m ''blood_pressure'' = None" "first_violation m ''heart_rate'' = None"
    "first_violation m ''physical_activity'' = None"
    using assms by blast+
  from v(4) obtain x where x: "stress_level m = Some x"
    by (cases "stress_level m") (simp_all add: first_violation_simps number_violation_undefined)
  show ?thesis
    unfolding parse_shape_snd
    using v
    by (simp add: sleepLogSchema_def map_of_to_object first_violation_simps x zod_number2
        zod_number1 zod_string1 to_object_def del: zod_parse.simps)
qed

text \<open>
  Claim C6. Every input whose fields are all present and within the documented ranges
  passes validation, and the record returned has the fields of the coerced input, in
  the same order and with the same values: on valid inputs validation is the identity.
\<close>

theorem valid_input_is_returned_unchanged:
  assumes "within_documented_ranges m"
  shows "sleepLogSchema_parse em (to_object m) = Inr (to_object m)"
proof -
  from assms have none: "\<forall>k. first_violation m k = None"
    by (simp add: within_iff offending_iff)
  then have "fst (parse_shape em sleepLogSchema (to_object m)) = []"
    by (simp add: sleepLog_issues field_issues_def)
  with all_valid_out[OF none] show ?thesis
    by (simp add: sleepLogSchema_parse_def zod_object_parse_eq)
qed

theorem valid_input_is_returned_unchanged_witness:
  "within_documented_ranges (coerce example_env example_form) \<and>
   sleepLogSchema_parse example_errorMap (to_object (coerce example_env example_form)) =
     Inr [(''age'', JNum (Fin 34)), (''gender'', JStr ''Female''),
          (''sleep_duration'', JNum (Fin (15 / 2))), (''stress_level'', JNum (Fin 5)),
          (''daily_steps'', JNum (Fin 8000)), (''bmi_category'', JStr ''Normal''),
          (''blood_pressure'', JStr ''120/80''), (''heart_rate'', JNum (Fin 72)),
          (''physical_activity'', JNum (Fin 30))]"
proof -
  have h: "within_documented_ranges (coerce example_env example_form)"
    by (simp add: within_documented_ranges_def coerce_def example_env_def example_form_def
        example_parseInt_def example_parseFloat_def in_interval_def at_least_def)
  have "to_object (coerce example_env example_form) =
     [(''age'', JNum (Fin 34)), (''gender'', JStr ''Female''),
          (''sleep_duration'', JNum (Fin (15 / 2))), (''stress_level'', JNum (Fin 5)),
          (''daily_steps'', JNum (Fin 8000)), (''bmi_category'', JStr ''Normal''),
          (''blood_pressure'', JStr ''120/80''), (''heart_rate'', JNum (Fin 72)),
          (''physical_activity'', JNum (Fin 30))]"
    by (simp add: to_object_def coerce_def example_env_def example_form_def
        example_parseInt_def example_parseFloat_def)
  with valid_input_is_returned_unchanged[OF h, of example_errorMap] h show ?thesis
    by simp
qed

lemma invalid_input_issues:
  assumes "\<not> within_documented_ranges m"
    and "issues = concat (map (field_issues em (first_violation m)) field_names)"
  shows "sleepLogSchema_parse em (to_object m) = Inl issues \<and>
         map first_path issues = filter (offending m) field_names \<and>
         fieldErrors issues = (\<lambda>k. map_option em (first_violation m k)) \<and>
         {k. offending m k} \<noteq> {}"
proof -
  from assms(1) obtain k where k: "offending m k"
    by (auto simp: within_iff)
  then have nonempty: "{k. offending m k} \<noteq> {}" by blast
  have "offending m = (\<lambda>k. first_violation m k \<noteq> None)"
    by (rule ext) (rule offending_iff)
  then have paths: "map first_path issues = filter (offending m) field_names"
    by (simp add: assms(2) field_issues_paths del: not_None_eq)
  from k have "k \<in> set field_names"
    using offending_other by blast
  with k have "filter (offending m) field_names \<noteq> []"
    by (auto simp: filter_empty_conv)
  with paths have "issues \<noteq> []" by auto
  then have parse: "sleepLogSchema_parse em (to_object m) = Inl issues"
    by (simp add: sleepLogSchema_parse_def zod_object_parse_eq sleepLog_issues assms(2))
  have "fieldErrors issues = (\<lambda>k. map_option em (first_violation m k))"
    by (rule ext) (simp add: assms(2) fieldErrors_concat first_violation_other)
  with nonempty paths parse show ?thesis by simp
qed

text \<open>
  Claim C5. When at least one field of the coerced input is missing or out of range,
  validation fails; its issues name exactly the offending fields, each once, in schema
  order, each with the first constraint the field fails and that constraint's message;
  the error mapping \<open>handleSubmit\<close> stores has exactly the offending fields as keys and
  that message as each one's entry, so it is not empty; and the submission hands no
  request to the network.
\<close>

theorem invalid_input_reports_fields_and_sends_nothing:
  assumes "\<not> within_documented_ranges m" and "m = coerce e (formData s)"
  shows "\<exists>issues.
           sleepLogSchema_parse (errorMap e) (to_object m) = Inl issues \<and>
           map first_path issues = filter (offending m) field_names \<and>
           distinct (map first_path issues) \<and>
           (\<forall>i\<in>set issues. first_violation m (first_path i) = Some (code i)
               \<and> message i = errorMap e (code i)) \<and>
           errors (state (handleSubmit e s)) = fieldErrors issues \<and>
           errors (state (handleSubmit e s)) = (\<lambda>k. map_option (errorMap e) (first_violation m k)) \<and>
           dom (errors (state (handleSubmit e s))) = {k. offending m k} \<and>
           {k. offending m k} \<noteq> {} \<and>
           requests (handleSubmit e s) = []"
proof -
  define issues where "issues = concat (map (field_issues (errorMap e) (first_violation m)) field_names)"
  note facts = invalid_input_issues[OF assms(1) issues_def]
  have run: "handleSubmit e s =
      \<lparr>state = s\<lparr>isLoading := False, errors := fieldErrors issues\<rparr>, requests = [], toasts = []\<rparr>"
    using facts by (simp add: handleSubmit_def assms(2))
  have members: "\<forall>i\<in>set issues. first_violation m (first_path i) = Some (code i)
      \<and> message i = errorMap e (code i)"
    using field_issues_members[of _ "errorMap e" "first_violation m" field_names]
    by (simp add: issues_def)
  have "dom (\<lambda>k. map_option (errorMap e) (first_violation m k)) = {k. offending m k}"
    by (auto simp: offending_iff dom_def)
  moreover have "distinct (filter (offending m) field_names)"
    using distinct_field_names by simp
  ultimately show ?thesis
    using facts members run by (intro exI[of _ issues]) simp
qed

theorem invalid_input_reports_fields_and_sends_nothing_witness:
  "\<not> within_documented_ranges (coerce example_env (formData blank_log)) \<and>
   requests (handleSubmit example_env blank_log) = [] \<and>
   errors (state (handleSubmit example_env blank_log)) ''age'' =
     Some ''Expected number, received nan'' \<and>
   errors (state (handleSubmit example_env blank_log)) ''gender'' =
     Some ''String must contain at least 1 character(s)'' \<and>
   errors (state (handleSubmit example_env blank_log)) ''stress_level'' = None"
proof -
  have m: "coerce example_env (formData blank_log) =
      \<lparr>age = NaN, gender = [], sleep_duration = NaN, stress_level = Some (Fin 5),
       daily_steps = NaN, bmi_category = [], blood_pressure = [], heart_rate = NaN,
       physical_activity = NaN\<rparr>"
    by (simp add: coerce_def blank_log_def initial_form_def example_env_def
        example_parseInt_def example_parseFloat_def)
  have h: "\<not> within_documented_ranges (coerce example_env (formData blank_log))"
    by (simp add: m within_documented_ranges_def in_interval_def)
  have em: "errorMap example_env = example_errorMap"
    by (simp add: example_env_def)
  from invalid_input_reports_fields_and_sends_nothing[OF h refl]
  have "errors (state (handleSubmit example_env blank_log)) =
          (\<lambda>k. map_option (errorMap example_env)
             (first_violation (coerce example_env (formData blank_log)) k))"
    and "requests (handleSubmit example_env blank_log) = []"
    by blast+
  with h show ?thesis
    by (simp add: m em first_violation_def number_violation_def string_violation_def
        index_string.simps)
qed

section \<open>Credentials and transport\<close>

lemma obj_set_lookup: "map_of (obj_set ps k v) k' = (if k' = k then Some v else map_of ps k')"
  by (induction ps) auto



text \<open>
  Claim C1. A call of \<open>get\<close> made while the session has no active credential throws the
  missing-credential error at once and hands no request to the network.
\<close>

theorem get_without_credential_sends_nothing:
  assumes "getAuthToken e = None"
  shows "get cast e endpoint params = ([], Inl (Error ''Authentication token not found.''))"
  using assms by (simp add: get_def)

theorem get_without_credential_sends_nothing_witness:
  "getAuthToken signed_out_env = None \<and>
   get (\<lambda>v. v) signed_out_env ''/dashboard/series'' (Some [(''days'', JNum (Fin 7))]) =
     ([], Inl (Error ''Authentication token not found.''))"
proof -
  have h: "getAuthToken signed_out_env = None"
    by (simp add: getAuthToken_def signed_out_env_def)
  from get_without_credential_sends_nothing[OF h] h show ?thesis by simp
qed



text \<open>
  Claim C10. \<open>post\<close> does not require a credential: with no active credential it still
  sends its request, with \<open>token: null\<close> in the JSON body, and its outcome is whatever
  the response gives; in the same situation \<open>get\<close> sends nothing and throws the
  missing-credential error.
\<close>

theorem post_without_credential_still_sends:
  assumes "getAuthToken e = None"
  shows "fst (post cast e endpoint b) = [post_request e endpoint b] \<and>
         body (post_request e endpoint b) = Some (JObj (obj_set b ''token'' JNull)) \<and>
         map_of (obj_set b ''token'' JNull) ''token'' = Some JNull \<and>
         (\<forall>r. fetch e (post_request e endpoint b) = Inr r \<longrightarrow>
              snd (post cast e endpoint b) = handle_response cast e r) \<and>
         fst (get cast e endpoint params) = [] \<and>
         snd (get cast e endpoint params) = Inl (Error ''Authentication token not found.'')"
  using assms
  by (simp add: post_def get_def post_request_def token_value_def obj_set_lookup Let_def
      split: sum.split)

theorem post_without_credential_still_sends_witness:
  "getAuthToken signed_out_env = None \<and>
   post (\<lambda>v. v) signed_out_env ''/log'' [(''age'', JNum (Fin 34))] =
     ([\<lparr>http_method = ''POST'', resource = Literal ''https://api.example/log'',
        headers = [(''Content-Type'', ''application/json'')],
        body = Some (JObj [(''age'', JNum (Fin 34)), (''token'', JNull)])\<rparr>],
      Inr (JObj []))"
proof -
  have h: "getAuthToken signed_out_env = None"
    by (simp add: getAuthToken_def signed_out_env_def)
  have f: "fetch signed_out_env = (\<lambda>_. Inr \<lparr>status = 200, json = Inr (JObj [])\<rparr>)"
    by (simp add: signed_out_env_def example_env_def)
  from post_without_credential_still_sends[OF h, of "\<lambda>v. v" "''/log''" "[(''age'', JNum (Fin 34))]"]
  have "fst (post (\<lambda>v. v) signed_out_env ''/log'' [(''age'', JNum (Fin 34))]) =
          [post_request signed_out_env ''/log'' [(''age'', JNum (Fin 34))]]"
    and "snd (post (\<lambda>v. v) signed_out_env ''/log'' [(''age'', JNum (Fin 34))]) =
          handle_response (\<lambda>v. v) signed_out_env \<lparr>status = 200, json = Inr (JObj [])\<rparr>"
    by (simp_all add: f)
  then have "post (\<lambda>v. v) signed_out_env ''/log'' [(''age'', JNum (Fin 34))] =
      ([post_request signed_out_env ''/log'' [(''age'', JNum (Fin 34))]],
       handle_response (\<lambda>v. v) signed_out_env \<lparr>status = 200, json = Inr (JObj [])\<rparr>)"
    by (metis prod.collapse)
  with h show ?thesis
    by (simp add: post_request_def handle_response_def ok_def token_value_def
        signed_out_env_def example_env_def)
qed

section \<open>Error responses\<close>

lemma handle_response_error:
  assumes "\<not> ok r" and "json r = Inr errorData" and "errorData \<noteq> JNull"
  shows "handle_response cast e r =
     Inl (Error (js_String e (js_or (detail_field errorData) (JStr ''API request failed''))))"
  using assms by (cases errorData) (simp_all add: handle_response_def detail_field_def)

text \<open>
  Claim C2, as amended. When \<open>post\<close> or \<open>get\<close> receives a response with a non-success
  status whose body parses as JSON other than \<open>null\<close>, the call throws an \<open>Error\<close> whose
  message is the \<open>detail\<close> of the body when that is a non-empty string, and the fixed
  message \<open>API request failed\<close> when the body has no \<open>detail\<close> or a falsy one.
\<close>

theorem non_success_message_from_parsed_body:
  assumes "\<not> ok r" and "json r = Inr errorData" and "errorData \<noteq> JNull"
    and "outcome = snd (post cast e endpoint b) \<and> fetch e (post_request e endpoint b) = Inr r \<or>
         outcome = snd (get cast e endpoint params) \<and> getAuthToken e = Some tok \<and>
           URL_new e (API_URL e @ endpoint) = Inr u \<and>
           fetch e (get_request (append_params e (append_param u ''token'' tok) params)) = Inr r"
  shows "(\<forall>d. detail_field errorData = Some (JStr d) \<and> d \<noteq> [] \<longrightarrow> outcome = Inl (Error d)) \<and>
         (detail_field errorData = None \<or>
            (\<exists>v. detail_field errorData = Some v \<and> \<not> truthy v) \<longrightarrow>
              outcome = Inl (Error ''API request failed''))"
proof -
  have "outcome = handle_response cast e r"
    using assms(4) by (auto simp: post_def get_def Let_def)
  then have "outcome =
      Inl (Error (js_String e (js_or (detail_field errorData) (JStr ''API request failed''))))"
    using handle_response_error[OF assms(1-3)] by simp
  then show ?thesis
    by (auto simp: js_String_def)
qed

theorem non_success_message_from_parsed_body_witness:
  "snd (post (\<lambda>v. v) quota_env ''/predict'' []) = Inl (Error ''quota exceeded'') \<and>
   snd (post (\<lambda>v. v) (quota_env\<lparr>fetch := (\<lambda>_. Inr \<lparr>status = 500, json = Inr (JObj [])\<rparr>)\<rparr>) ''/predict'' [])
     = Inl (Error ''API request failed'') \<and>
   snd (get (\<lambda>v. v) quota_env ''/dashboard/series'' None) = Inl (Error ''quota exceeded'')"
proof -
  let ?r = "\<lparr>status = 429, json = Inr (JObj [(''detail'', JStr ''quota exceeded'')])\<rparr>"
  let ?r2 = "\<lparr>status = 500, json = Inr (JObj [])\<rparr>"
  let ?e2 = "quota_env\<lparr>fetch := (\<lambda>_. Inr ?r2)\<rparr>"
  have a: "\<not> ok ?r" "\<not> ok ?r2" by (simp_all add: ok_def)
  have f: "fetch quota_env (post_request quota_env ''/predict'' []) = Inr ?r"
    by (simp add: quota_env_def)
  have f2: "fetch ?e2 (post_request ?e2 ''/predict'' []) = Inr ?r2"
    by simp
  from non_success_message_from_parsed_body[where r = ?r and e = quota_env
      and errorData = "JObj [(''detail'', JStr ''quota exceeded'')]"
      and outcome = "snd (post (\<lambda>v. v) quota_env ''/predict'' [])" and cast = "\<lambda>v. v"
      and endpoint = "''/predict''" and b = "[]"] a f
  have 1: "snd (post (\<lambda>v. v) quota_env ''/predict'' []) = Inl (Error ''quota exceeded'')"
    by (simp add: detail_field_def)
  from non_success_message_from_parsed_body[where r = ?r2 and e = ?e2
      and errorData = "JObj []"
      and outcome = "snd (post (\<lambda>v. v) ?e2 ''/predict'' [])" and cast = "\<lambda>v. v"
      and endpoint = "''/predict''" and b = "[]"] a f2
  have 2: "snd (post (\<lambda>v. v) ?e2 ''/predict'' []) = Inl (Error ''API request failed'')"
    by (simp add: detail_field_def)
  let ?u = "\<lparr>href = ''https://api.example/dashboard/series'', searchParams = []\<rparr>"
  have g: "getAuthToken quota_env = Some ''jwt''"
    "URL_new quota_env (API_URL quota_env @ ''/dashboard/series'') = Inr ?u"
    "fetch quota_env (get_request (append_params quota_env (append_param ?u ''token'' ''jwt'') None))
       = Inr ?r"
    by (simp_all add: quota_env_def example_env_def getAuthToken_def example_URL_def)
  from non_success_message_from_parsed_body[where r = ?r and e = quota_env
      and errorData = "JObj [(''detail'', JStr ''quota exceeded'')]"
      and outcome = "snd (get (\<lambda>v. v) quota_env ''/dashboard/series'' None)" and cast = "\<lambda>v. v"
      and endpoint = "''/dashboard/series''" and params = None and tok = "''jwt''" and u = ?u] a g
  have 3: "snd (get (\<lambda>v. v) quota_env ''/dashboard/series'' None) = Inl (Error ''quota exceeded'')"
    by (simp add: detail_field_def)
  from 1 2 3 show ?thesis by simp
qed

text \<open>
  Claim C2 as stated fails. A non-success response whose body is not JSON makes
  \<open>response.json()\<close> reject, and both methods let that rejection through: the caller gets
  the parse failure, not the generic message. A \<open>detail\<close> that is a list is turned into a
  string by the \<open>Error\<close> constructor instead of giving way to the generic message, and a
  \<open>detail\<close> that is the empty string gives the generic message instead of itself.
\<close>

theorem unparseable_or_odd_detail_counterexample:
  "snd (post (\<lambda>v. v) bad_gateway_env ''/log'' []) =
     Inl (SyntaxError ''Unexpected token < in JSON at position 0'') \<and>
   snd (post (\<lambda>v. v) bad_gateway_env ''/log'' []) \<noteq> Inl (Error ''API request failed'') \<and>
   snd (get (\<lambda>v. v) bad_gateway_env ''/dashboard/series'' None) =
     Inl (SyntaxError ''Unexpected token < in JSON at position 0'') \<and>
   snd (post (\<lambda>v. v) unprocessable_env ''/predict'' []) = Inl (Error ''[object Object]'') \<and>
   snd (post (\<lambda>v. v) empty_detail_env ''/predict'' []) = Inl (Error ''API request failed'')"
  by (simp add: post_def get_def Let_def bad_gateway_env_def unprocessable_env_def
      empty_detail_env_def example_env_def handle_response_def ok_def getAuthToken_def
      example_URL_def js_String_def)

section \<open>Dashboard refresh\<close>

lemma insert_by_counts:
  "insert_by (by_count_desc e) (fst x, JNum (Fin (snd x))) (map (\<lambda>p. (fst p, JNum (Fin (snd p)))) ys) =
     map (\<lambda>p. (fst p, JNum (Fin (snd p)))) (insort_key (\<lambda>p. - snd p) x ys)"
  by (induction ys) (simp_all add: by_count_desc_def ToNumber_def)

lemma js_sort_counts:
  "js_sort (by_count_desc e) (map (\<lambda>p. (fst p, JNum (Fin (snd p)))) xs) =
     map (\<lambda>p. (fst p, JNum (Fin (snd p)))) (sort_key (\<lambda>p. - snd p) xs)"
proof (induction xs)
  case Nil
  then show ?case by (simp add: js_sort_def)
next
  case (Cons x xs)
  then show ?case
    using insert_by_counts[of e x "sort_key (\<lambda>p. - snd p) xs"]
    by (simp add: js_sort_def)
qed

lemma insort_key_map_snd:
  "insort_key (\<lambda>p. f (fst p)) (fst x, h (snd x)) (map (\<lambda>p. (fst p, h (snd p))) ys) =
     map (\<lambda>p. (fst p, h (snd p))) (insort_key (\<lambda>p. f (fst p)) x ys)"
  by (induction ys) simp_all

lemma sort_key_map_snd:
  "sort_key (\<lambda>p. f (fst p)) (map (\<lambda>p. (fst p, h (snd p))) xs) =
     map (\<lambda>p. (fst p, h (snd p))) (sort_key (\<lambda>p. f (fst p)) xs)"
proof (induction xs)
  case Nil
  then show ?case by simp
next
  case (Cons x xs)
  then show ?case
    using insort_key_map_snd[of f x h "sort_key (\<lambda>p. f (fst p)) xs"] by simp
qed

lemma own_entries_map_snd:
  "own_entries (map (\<lambda>p. (fst p, h (snd p))) xs) = map (\<lambda>p. (fst p, h (snd p))) (own_entries xs)"
  using sort_key_map_snd[of index_value h "filter (\<lambda>p. is_array_index (fst p)) xs"]
  by (simp add: own_entries_def filter_map comp_def)

lemma mset_own_entries: "mset (own_entries xs) = mset xs"
  by (simp add: own_entries_def)

lemma own_entries_no_index:
  assumes "\<forall>k\<in>fst ` set xs. \<forall>n<4294967295. k \<noteq> index_string n"
  shows "own_entries xs = xs"
proof -
  have "\<not> is_array_index (fst p)" if "p \<in> set xs" for p
  proof
    assume "is_array_index (fst p)"
    then have "fst p = index_string (index_value (fst p))" "index_value (fst p) < 4294967295"
      by (simp_all add: is_array_index_def)
    with assms that show False by force
  qed
  then show ?thesis
    by (simp add: own_entries_def filter_empty_conv)
qed

lemma index_string_digits: "set (index_string n) \<subseteq> set ''0123456789''"
proof (induction n rule: index_string.induct)
  case (1 n)
  show ?case
  proof (cases "n < 10")
    case True
    then have "''0123456789'' ! n \<in> set ''0123456789''"
      by (intro nth_mem) simp
    with True show ?thesis
      by (subst index_string.simps) simp
  next
    case False
    have "''0123456789'' ! (n mod 10) \<in> set ''0123456789''"
      by (intro nth_mem) simp
    with False 1 show ?thesis
      by (subst index_string.simps) simp
  qed
qed

lemma letter_is_no_index:
  assumes "c \<in> set k" and "c \<notin> set ''0123456789''"
  shows "k \<noteq> index_string n"
  using assms index_string_digits[of n] by blast

lemma fetch_failed:
  assumes "isl r1 \<or> isl r2"
  shows "\<exists>err. promise_all first_wins r1 r2 = Inl err"
  using assms by (cases r1; cases r2) auto

lemma drivers_down_requests:
  "snd (get (\<lambda>v. v) drivers_down_env ''/dashboard/series'' (days_params drivers_down_env ''7'')) =
     Inr series_body"
  "snd (get (\<lambda>v. v) drivers_down_env ''/dashboard/top-drivers'' (days_params drivers_down_env ''7'')) =
     Inl (Error ''drivers unavailable'')"
  by (simp_all add: get_def drivers_down_env_def example_env_def getAuthToken_def example_URL_def
      append_params_def append_param_def days_params_def js_String_def get_request_def
      is_series_request_def handle_response_def ok_def example_parseInt_def
      index_string.simps)

lemma dashboard_env_requests:
  "snd (get (\<lambda>v. v) dashboard_env ''/dashboard/series'' (days_params dashboard_env ''7'')) =
     Inr series_body"
  "snd (get (\<lambda>v. v) dashboard_env ''/dashboard/top-drivers'' (days_params dashboard_env ''7'')) =
     Inr drivers_body"
  by (simp_all add: get_def dashboard_env_def example_env_def getAuthToken_def example_URL_def
      append_params_def append_param_def days_params_def js_String_def get_request_def
      is_series_request_def handle_response_def ok_def example_parseInt_def
      index_string.simps)

lemma null_series_requests:
  "snd (get (\<lambda>v. v) null_series_env ''/dashboard/series'' (days_params null_series_env ''7'')) =
     Inr JNull"
  "snd (get (\<lambda>v. v) null_series_env ''/dashboard/top-drivers'' (days_params null_series_env ''7'')) =
     Inr drivers_body"
  by (simp_all add: get_def null_series_env_def example_env_def getAuthToken_def example_URL_def
      append_params_def append_param_def days_params_def js_String_def get_request_def
      is_series_request_def handle_response_def ok_def example_parseInt_def
      index_string.simps)

lemma get_success_is_body:
  assumes "snd (get (\<lambda>v. v) e endpoint params) = Inr x"
  shows "\<exists>req r. fst (get (\<lambda>v. v) e endpoint params) = [req] \<and>
           fetch e req = Inr r \<and> ok r \<and> json r = Inr x"
  using assms
  by (auto simp: get_def Let_def handle_response_def
      split: option.splits sum.splits if_splits)

text \<open>
  Claim C4, as amended. For every mapping from driver names to counts, the formatted top
  drivers are the first five of a ranking of its entries: the ranking has the same
  entries, counts never increase along it, and entries of equal count keep the order in
  which \<open>Object.entries\<close> enumerates the mapping, which is the names that are array indices
  first, in ascending numeric order, then the other names in insertion order. When no
  driver name is the numeral of an integer below \<open>2^32 - 1\<close>, entries of equal count keep
  their insertion order; for the counts \<open>A:3, B:5, C:5, D:1\<close> the first two are \<open>B:5\<close> then
  \<open>C:5\<close>.
\<close>

theorem top_drivers_ranking:
  "(\<exists>ranked.
      formattedDrivers e (Some (JObj (map (\<lambda>p. (fst p, JNum (Fin (snd p)))) counts))) =
        Inr (map (\<lambda>p. \<lparr>driver = fst p, count = JNum (Fin (snd p))\<rparr>) (take 5 ranked)) \<and>
      mset ranked = mset counts \<and>
      sorted_wrt (\<lambda>x y. snd y \<le> snd x) ranked \<and>
      (\<forall>c. filter (\<lambda>p. snd p = c) ranked =
           filter (\<lambda>p. snd p = c)
             (sort_key (\<lambda>p. index_value (fst p)) (filter (\<lambda>p. is_array_index (fst p)) counts)
              @ filter (\<lambda>p. \<not> is_array_index (fst p)) counts)) \<and>
      ((\<forall>k\<in>fst ` set counts. \<forall>n<4294967295. k \<noteq> index_string n) \<longrightarrow>
         (\<forall>c. filter (\<lambda>p. snd p = c) ranked = filter (\<lambda>p. snd p = c) counts))) \<and>
   formattedDrivers e (Some (JObj [(''A'', JNum (Fin 3)), (''B'', JNum (Fin 5)),
                                   (''C'', JNum (Fin 5)), (''D'', JNum (Fin 1))])) =
     Inr [\<lparr>driver = ''B'', count = JNum (Fin 5)\<rparr>, \<lparr>driver = ''C'', count = JNum (Fin 5)\<rparr>,
          \<lparr>driver = ''A'', count = JNum (Fin 3)\<rparr>, \<lparr>driver = ''D'', count = JNum (Fin 1)\<rparr>]"
proof -
  define ranked where "ranked = sort_key (\<lambda>p. - snd p) (own_entries counts)"
  have fmt: "formattedDrivers e (Some (JObj (map (\<lambda>p. (fst p, JNum (Fin (snd p)))) counts))) =
        Inr (map (\<lambda>p. \<lparr>driver = fst p, count = JNum (Fin (snd p))\<rparr>) (take 5 ranked))"
    by (simp add: formattedDrivers_def own_entries_map_snd[where h = "\<lambda>x. JNum (Fin x)"]
        js_sort_counts ranked_def take_map comp_def)
  have perm: "mset ranked = mset counts"
    by (simp add: ranked_def mset_own_entries)
  have "sorted (map (\<lambda>p. - snd p) ranked)"
    by (simp add: ranked_def)
  then have desc: "sorted_wrt (\<lambda>x y. snd y \<le> snd x) ranked"
    by (simp add: sorted_map)
  have stable: "filter (\<lambda>p. snd p = c) ranked = filter (\<lambda>p. snd p = c) (own_entries counts)" for c
  proof -
    have "filter (\<lambda>p. - snd p = - c) (sort_key (\<lambda>p. - snd p) (own_entries counts)) =
        filter (\<lambda>p. - snd p = - c) (own_entries counts)"
      by (rule sort_key_stable)
    then show ?thesis by (simp add: ranked_def)
  qed
  have general: "\<forall>c. filter (\<lambda>p. snd p = c) ranked =
           filter (\<lambda>p. snd p = c)
             (sort_key (\<lambda>p. index_value (fst p)) (filter (\<lambda>p. is_array_index (fst p)) counts)
              @ filter (\<lambda>p. \<not> is_array_index (fst p)) counts)"
    using stable by (simp add: own_entries_def)
  have plain: "(\<forall>k\<in>fst ` set counts. \<forall>n<4294967295. k \<noteq> index_string n) \<longrightarrow>
         (\<forall>c. filter (\<lambda>p. snd p = c) ranked = filter (\<lambda>p. snd p = c) counts)"
    using stable own_entries_no_index[of counts] by simp
  have ex: "formattedDrivers e (Some (JObj [(''A'', JNum (Fin 3)), (''B'', JNum (Fin 5)),
                                   (''C'', JNum (Fin 5)), (''D'', JNum (Fin 1))])) =
     Inr [\<lparr>driver = ''B'', count = JNum (Fin 5)\<rparr>, \<lparr>driver = ''C'', count = JNum (Fin 5)\<rparr>,
          \<lparr>driver = ''A'', count = JNum (Fin 3)\<rparr>, \<lparr>driver = ''D'', count = JNum (Fin 1)\<rparr>]"
    by (simp add: formattedDrivers_def own_entries_def is_array_index_def index_value_def
        index_string.simps js_sort_def by_count_desc_def ToNumber_def)
  from fmt perm desc general plain ex show ?thesis
    by blast
qed

theorem top_drivers_ranking_witness:
  "\<exists>ranked.
     formattedDrivers example_env (Some (JObj [(''A'', JNum (Fin 3)), (''B'', JNum (Fin 5)),
                                               (''C'', JNum (Fin 5)), (''D'', JNum (Fin 1))])) =
       Inr (map (\<lambda>p. \<lparr>driver = fst p, count = JNum (Fin (snd p))\<rparr>) (take 5 ranked)) \<and>
     mset ranked = mset [(''A'', 3), (''B'', 5), (''C'', 5), (''D'', 1)] \<and>
     filter (\<lambda>p. snd p = 5) ranked = [(''B'', 5), (''C'', 5)]"
proof -
  let ?counts = "[(''A'', 3::real), (''B'', 5), (''C'', 5), (''D'', 1)]"
  have h: "\<forall>k\<in>fst ` set ?counts. \<forall>n<4294967295. k \<noteq> index_string n"
    using letter_is_no_index[of "CHR ''A''" "''A''"] letter_is_no_index[of "CHR ''B''" "''B''"]
      letter_is_no_index[of "CHR ''C''" "''C''"] letter_is_no_index[of "CHR ''D''" "''D''"]
    by simp
  from top_drivers_ranking[of example_env ?counts] h obtain ranked where
    "formattedDrivers example_env (Some (JObj (map (\<lambda>p. (fst p, JNum (Fin (snd p)))) ?counts))) =
        Inr (map (\<lambda>p. \<lparr>driver = fst p, count = JNum (Fin (snd p))\<rparr>) (take 5 ranked))"
    "mset ranked = mset ?counts"
    "\<forall>c. filter (\<lambda>p. snd p = c) ranked = filter (\<lambda>p. snd p = c) ?counts"
    by blast
  then show ?thesis
    by (intro exI[of _ ranked]) simp
qed

text \<open>
  Claim C4 as stated fails for driver names that are array indices: with the counts
  \<open>b:1, 2:1, 1:1\<close> inserted in this order, all tied, the formatted list is \<open>1, 2, b\<close>, not
  the insertion order \<open>b, 2, 1\<close>. The largest array index is \<open>4294967294\<close>: that name moves
  to the front, while \<open>4294967295\<close> and \<open>01\<close> stay where they were inserted.
\<close>

theorem index_names_come_first_counterexample:
  "formattedDrivers example_env
     (Some (JObj [(''b'', JNum (Fin 1)), (''2'', JNum (Fin 1)), (''1'', JNum (Fin 1))])) =
     Inr [\<lparr>driver = ''1'', count = JNum (Fin 1)\<rparr>, \<lparr>driver = ''2'', count = JNum (Fin 1)\<rparr>,
          \<lparr>driver = ''b'', count = JNum (Fin 1)\<rparr>] \<and>
   formattedDrivers example_env
     (Some (JObj [(''b'', JNum (Fin 1)), (''2'', JNum (Fin 1)), (''1'', JNum (Fin 1))])) \<noteq>
     Inr [\<lparr>driver = ''b'', count = JNum (Fin 1)\<rparr>, \<lparr>driver = ''2'', count = JNum (Fin 1)\<rparr>,
          \<lparr>driver = ''1'', count = JNum (Fin 1)\<rparr>] \<and>
   formattedDrivers example_env
     (Some (JObj [(''a'', JNum (Fin 1)), (''4294967295'', JNum (Fin 1)),
                  (''4294967294'', JNum (Fin 1)), (''01'', JNum (Fin 1))])) =
     Inr [\<lparr>driver = ''4294967294'', count = JNum (Fin 1)\<rparr>,
          \<lparr>driver = ''a'', count = JNum (Fin 1)\<rparr>,
          \<lparr>driver = ''4294967295'', count = JNum (Fin 1)\<rparr>,
          \<lparr>driver = ''01'', count = JNum (Fin 1)\<rparr>]"
  by (simp add: formattedDrivers_def own_entries_def is_array_index_def index_value_def
      index_string.simps js_sort_def by_count_desc_def ToNumber_def)

text \<open>
  Claim C7. When either of the two fetches of one refresh fails, the refresh changes
  nothing of the dashboard's data: the state afterwards is the state before with the
  loading flag cleared, so \<open>logs\<close>, \<open>averages\<close> and \<open>topDrivers\<close> keep their values; and
  exactly one error toast is shown, of the same form whether one fetch failed or both.
\<close>

theorem failed_refresh_updates_nothing:
  assumes "isl (snd (get (\<lambda>v. v) e ''/dashboard/series'' (days_params e (days s)))) \<or>
           isl (snd (get (\<lambda>v. v) e ''/dashboard/top-drivers'' (days_params e (days s))))"
  shows "\<exists>err.
           state (fetchDashboardData e first_wins s) = s\<lparr>isLoading := False\<rparr> \<and>
           logs (state (fetchDashboardData e first_wins s)) = logs s \<and>
           averages (state (fetchDashboardData e first_wins s)) = averages s \<and>
           topDrivers (state (fetchDashboardData e first_wins s)) = topDrivers s \<and>
           toasts (fetchDashboardData e first_wins s) =
             [\<lparr>title = ''Failed to load dashboard'', description = error_text err,
               variant = Some ''destructive''\<rparr>]"
proof -
  obtain reqs1 r1 where g1: "get (\<lambda>v. v) e ''/dashboard/series'' (days_params e (days s)) = (reqs1, r1)"
    by (cases "get (\<lambda>v. v) e ''/dashboard/series'' (days_params e (days s))")
  obtain reqs2 r2 where g2: "get (\<lambda>v. v) e ''/dashboard/top-drivers'' (days_params e (days s)) = (reqs2, r2)"
    by (cases "get (\<lambda>v. v) e ''/dashboard/top-drivers'' (days_params e (days s))")
  from assms g1 g2 have "isl r1 \<or> isl r2" by simp
  then obtain err where "promise_all first_wins r1 r2 = Inl err"
    using fetch_failed by blast
  then show ?thesis
    by (intro exI[of _ err]) (simp add: fetchDashboardData_def g1 g2)
qed

theorem failed_refresh_updates_nothing_witness:
  "isl (snd (get (\<lambda>v. v) drivers_down_env ''/dashboard/top-drivers''
          (days_params drivers_down_env (days initial_dashboard)))) \<and>
   state (fetchDashboardData drivers_down_env True initial_dashboard) =
     initial_dashboard\<lparr>isLoading := False\<rparr> \<and>
   length (toasts (fetchDashboardData drivers_down_env True initial_dashboard)) = 1"
proof -
  have d: "days initial_dashboard = ''7''"
    by (simp add: initial_dashboard_def)
  have h: "isl (snd (get (\<lambda>v. v) drivers_down_env ''/dashboard/top-drivers''
          (days_params drivers_down_env (days initial_dashboard))))"
    by (simp add: d drivers_down_requests)
  then have "isl (snd (get (\<lambda>v. v) drivers_down_env ''/dashboard/series''
          (days_params drivers_down_env (days initial_dashboard)))) \<or>
      isl (snd (get (\<lambda>v. v) drivers_down_env ''/dashboard/top-drivers''
          (days_params drivers_down_env (days initial_dashboard))))"
    by simp
  from failed_refresh_updates_nothing[OF this, of True] obtain err where
    "state (fetchDashboardData drivers_down_env True initial_dashboard) =
       initial_dashboard\<lparr>isLoading := False\<rparr>"
    "toasts (fetchDashboardData drivers_down_env True initial_dashboard) =
       [\<lparr>title = ''Failed to load dashboard'', description = error_text err,
         variant = Some ''destructive''\<rparr>]"
    by blast
  with h show ?thesis by simp
qed

text \<open>
  Claim C8, as amended. In every refresh in which both the series fetch and the
  top-drivers fetch succeed and the body of the series response is not \<open>null\<close>, the
  averages (and the logs) the dashboard holds afterwards are the \<open>averages\<close> (and \<open>logs\<close>)
  property of that body, the very value and nothing computed from the log entries;
  \<open>undefined\<close> when the body has no such property.
\<close>

theorem averages_passed_through_when_both_succeed:
  assumes "snd (get (\<lambda>v. v) e ''/dashboard/series'' (days_params e (days s))) = Inr seriesData"
    and "snd (get (\<lambda>v. v) e ''/dashboard/top-drivers'' (days_params e (days s))) = Inr driversData"
    and "seriesData \<noteq> JNull"
  shows "averages (state (fetchDashboardData e first_wins s)) =
           (case seriesData of JObj props \<Rightarrow> map_of props ''averages'' | _ \<Rightarrow> None) \<and>
         logs (state (fetchDashboardData e first_wins s)) =
           (case seriesData of JObj props \<Rightarrow> map_of props ''logs'' | _ \<Rightarrow> None) \<and>
         (\<exists>req r.
            fst (get (\<lambda>v. v) e ''/dashboard/series'' (days_params e (days s))) = [req] \<and>
            fetch e req = Inr r \<and> ok r \<and> json r = Inr seriesData)"
proof -
  obtain reqs1 where g1: "get (\<lambda>v. v) e ''/dashboard/series'' (days_params e (days s)) = (reqs1, Inr seriesData)"
    using assms(1) by (cases "get (\<lambda>v. v) e ''/dashboard/series'' (days_params e (days s))") simp
  obtain reqs2 where g2: "get (\<lambda>v. v) e ''/dashboard/top-drivers'' (days_params e (days s)) = (reqs2, Inr driversData)"
    using assms(2) by (cases "get (\<lambda>v. v) e ''/dashboard/top-drivers'' (days_params e (days s))") simp
  have "averages (fst (apply_responses e seriesData driversData s1)) =
           (case seriesData of JObj props \<Rightarrow> map_of props ''averages'' | _ \<Rightarrow> None) \<and>
        logs (fst (apply_responses e seriesData driversData s1)) =
           (case seriesData of JObj props \<Rightarrow> map_of props ''logs'' | _ \<Rightarrow> None)" for s1
    using assms(3)
    by (cases seriesData) (simp_all add: apply_responses_def Let_def split: sum.split)
  note applied = this
  obtain s2 t where ar: "apply_responses e seriesData driversData (s\<lparr>isLoading := True\<rparr>) = (s2, t)"
    by (cases "apply_responses e seriesData driversData (s\<lparr>isLoading := True\<rparr>)")
  from applied[of "s\<lparr>isLoading := True\<rparr>"]
  have "averages (state (fetchDashboardData e first_wins s)) =
           (case seriesData of JObj props \<Rightarrow> map_of props ''averages'' | _ \<Rightarrow> None) \<and>
         logs (state (fetchDashboardData e first_wins s)) =
           (case seriesData of JObj props \<Rightarrow> map_of props ''logs'' | _ \<Rightarrow> None)"
    by (simp add: fetchDashboardData_def g1 g2 ar)
  with get_success_is_body[OF assms(1)] show ?thesis by simp
qed

theorem averages_passed_through_when_both_succeed_witness:
  "snd (get (\<lambda>v. v) dashboard_env ''/dashboard/series''
         (days_params dashboard_env (days initial_dashboard))) = Inr series_body \<and>
   snd (get (\<lambda>v. v) dashboard_env ''/dashboard/top-drivers''
         (days_params dashboard_env (days initial_dashboard))) = Inr drivers_body \<and>
   series_body \<noteq> JNull \<and>
   averages (state (fetchDashboardData dashboard_env False initial_dashboard)) =
     Some (JObj [(''sleep'', JNum (Fin 7)), (''quality'', JNum (Fin 8)),
                 (''stress'', JNum (Fin 4)), (''steps'', JNum (Fin 9000))])"
proof -
  have d: "days initial_dashboard = ''7''"
    by (simp add: initial_dashboard_def)
  have a: "snd (get (\<lambda>v. v) dashboard_env ''/dashboard/series''
         (days_params dashboard_env (days initial_dashboard))) = Inr series_body"
    by (simp add: d dashboard_env_requests)
  have b: "snd (get (\<lambda>v. v) dashboard_env ''/dashboard/top-drivers''
         (days_params dashboard_env (days initial_dashboard))) = Inr drivers_body"
    by (simp add: d dashboard_env_requests)
  have c: "series_body \<noteq> JNull"
    by (simp add: series_body_def)
  from averages_passed_through_when_both_succeed[OF a b c, of False] a b c show ?thesis
    by (simp add: series_body_def)
qed

text \<open>
  Claim C8 as stated fails. A successful series fetch alone does not bring its averages
  to the dashboard: when the top-drivers fetch of the same refresh fails, the averages
  stay as they were; and when the series endpoint answers 200 with the body \<open>null\<close>,
  reading \<open>seriesData.logs\<close> throws before any setter runs, the averages stay as they
  were and the error toast is shown.
\<close>

theorem series_success_alone_counterexample:
  "snd (get (\<lambda>v. v) drivers_down_env ''/dashboard/series''
         (days_params drivers_down_env (days initial_dashboard))) = Inr series_body \<and>
   averages (state (fetchDashboardData drivers_down_env True initial_dashboard)) =
     averages initial_dashboard \<and>
   averages (state (fetchDashboardData drivers_down_env True initial_dashboard)) \<noteq>
     map_of [(''logs'', JArr [JObj [(''created_at'', JStr ''2024-05-01''),
                                    (''sleep_duration'', JNum (Fin 7)),
                                    (''predicted_quality'', JNull),
                                    (''stress_level'', JNum (Fin 4)),
                                    (''daily_steps'', JNum (Fin 9000))]]),
             (''averages'', JObj [(''sleep'', JNum (Fin 7)), (''quality'', JNum (Fin 8)),
                                  (''stress'', JNum (Fin 4)), (''steps'', JNum (Fin 9000))])]
       ''averages'' \<and>
   snd (get (\<lambda>v. v) null_series_env ''/dashboard/series''
         (days_params null_series_env (days initial_dashboard))) = Inr JNull \<and>
   snd (get (\<lambda>v. v) null_series_env ''/dashboard/top-drivers''
         (days_params null_series_env (days initial_dashboard))) = Inr drivers_body \<and>
   averages (state (fetchDashboardData null_series_env True initial_dashboard)) =
     averages initial_dashboard \<and>
   map title (toasts (fetchDashboardData null_series_env True initial_dashboard)) =
     [''Failed to load dashboard'']"
proof -
  have d: "days initial_dashboard = ''7''"
    by (simp add: initial_dashboard_def)
  obtain q1 q2 where
    g: "get (\<lambda>v. v) drivers_down_env ''/dashboard/series'' (days_params drivers_down_env ''7'') =
          (q1, Inr series_body)"
       "get (\<lambda>v. v) drivers_down_env ''/dashboard/top-drivers'' (days_params drivers_down_env ''7'') =
          (q2, Inl (Error ''drivers unavailable''))"
    using drivers_down_requests by (metis prod.collapse)
  obtain q3 q4 where
    n: "get (\<lambda>v. v) null_series_env ''/dashboard/series'' (days_params null_series_env ''7'') =
          (q3, Inr JNull)"
       "get (\<lambda>v. v) null_series_env ''/dashboard/top-drivers'' (days_params null_series_env ''7'') =
          (q4, Inr drivers_body)"
    using null_series_requests by (metis prod.collapse)
  have 1: "state (fetchDashboardData drivers_down_env True initial_dashboard) =
      initial_dashboard\<lparr>isLoading := False\<rparr>"
    by (simp add: fetchDashboardData_def d g)
  have 2: "state (fetchDashboardData null_series_env True initial_dashboard) =
      initial_dashboard\<lparr>isLoading := False\<rparr>"
    "map title (toasts (fetchDashboardData null_series_env True initial_dashboard)) =
     [''Failed to load dashboard'']"
    by (simp_all add: fetchDashboardData_def d n apply_responses_def)
  show ?thesis
    by (simp add: 1 2 d drivers_down_requests null_series_requests)
       (simp add: initial_dashboard_def)
qed

end
